theory Spec2Isabelle
  imports Complex_Main
begin

section \<open>Python values\<close>

text \<open>
  A Python \<^verbatim>\<open>str\<close> is a sequence of Unicode code points: \<^verbatim>\<open>len\<close> counts code points and
  slicing cuts between them. A text is therefore a list of code points. The ASCII
  literals of the source are written as Isabelle strings and embedded by \<open>py_str\<close>.
\<close>

type_synonym codepoint = nat
type_synonym str = "codepoint list"

definition py_str :: "string \<Rightarrow> str" where
  "py_str s = map of_char s"

text \<open>
  A Python \<^verbatim>\<open>float\<close> is an IEEE double: a finite value, an infinity or NaN. The source
  only compares scores with literals, so a finite double is represented by the real
  number its literal denotes; a comparison with NaN is false. Float arithmetic
  (the percentage and the elapsed time) is left to the platform, see \<open>backend\<close>.
\<close>

datatype pyfloat = Finite real | PosInf | NegInf | NaN

fun float_gt :: "pyfloat \<Rightarrow> pyfloat \<Rightarrow> bool" where
  "float_gt NaN _ = False"
| "float_gt _ NaN = False"
| "float_gt PosInf PosInf = False"
| "float_gt PosInf _ = True"
| "float_gt _ PosInf = False"
| "float_gt NegInf _ = False"
| "float_gt (Finite a) NegInf = True"
| "float_gt (Finite a) (Finite b) = (b < a)"

definition float_le :: "pyfloat \<Rightarrow> pyfloat \<Rightarrow> bool" where
  "float_le a b \<longleftrightarrow> a \<noteq> NaN \<and> b \<noteq> NaN \<and> \<not> float_gt a b"

type_synonym vec = "pyfloat list"

datatype pyval = PyInt int | PyNone

text \<open>
  Exceptions are values. \<open>TypeError\<close> and \<open>IndexError\<close> are raised by the interpreter
  (a bad keyword argument, an index out of range); \<open>Raised name\<close> is an exception of
  class \<open>name\<close> raised inside an external library.
\<close>

datatype error = TypeError | IndexError | Raised string

definition getitem :: "'a list \<Rightarrow> nat \<Rightarrow> error + 'a" where
  "getitem xs i = (if i < length xs then Inr (xs ! i) else Inl IndexError)"

section \<open>External capabilities\<close>

text \<open>
  What the source imports and calls but does not define: the constructor
  \<^verbatim>\<open>SentenceTransformer\<close>, the methods of a loaded model, scikit-learn's
  \<^verbatim>\<open>cosine_similarity\<close>, the wall clock, \<^verbatim>\<open>str.lower\<close> and float arithmetic. Each one
  is a field of the backend; a call that raises returns \<open>Inl\<close>. \<open>'m\<close> is the type of
  a loaded model.
\<close>

record 'm backend =
  SentenceTransformer :: "str \<Rightarrow> error + 'm"
  tokenizer_encode :: "'m \<Rightarrow> str \<Rightarrow> error + int list"
  get_max_seq_length :: "'m \<Rightarrow> error + pyval"
  model_encode :: "'m \<Rightarrow> str list \<Rightarrow> error + vec list"
  cosine_similarity :: "vec list \<Rightarrow> vec list \<Rightarrow> error + pyfloat list list"
  clock :: "nat \<Rightarrow> pyfloat"
  str_lower :: "str \<Rightarrow> str"
  float_mul :: "pyfloat \<Rightarrow> pyfloat \<Rightarrow> pyfloat"
  float_sub :: "pyfloat \<Rightarrow> pyfloat \<Rightarrow> pyfloat"

text \<open>
  The effects of a run are the external calls it makes, in order. A computation takes
  the calls made so far and returns its result, or the exception it raised, with the
  calls extended. The \<open>n\<close>-th reading of the clock is \<open>clock env n\<close>.
\<close>

datatype call =
    CallLoadModel str
  | CallTokenizer str
  | CallMaxSeqLength
  | CallEncode "str list"
  | CallCosine "vec list" "vec list"
  | CallTime

type_synonym 'a io = "call list \<Rightarrow> (error + 'a) \<times> call list"

definition ret :: "'a \<Rightarrow> 'a io" where
  "ret x w = (Inr x, w)"

definition and_then :: "'a io \<Rightarrow> ('a \<Rightarrow> 'b io) \<Rightarrow> 'b io" where
  "and_then m f w = (case m w of (Inl e, w') \<Rightarrow> (Inl e, w') | (Inr x, w') \<Rightarrow> f x w')"

definition external :: "call \<Rightarrow> error + 'a \<Rightarrow> 'a io" where
  "external c r w = (r, w @ [c])"

definition lift :: "error + 'a \<Rightarrow> 'a io" where
  "lift r w = (r, w)"

definition time_time :: "'m backend \<Rightarrow> pyfloat io" where
  "time_time env w = (Inr (clock env (length (filter (\<lambda>c. c = CallTime) w))), w @ [CallTime])"

section \<open>similarity.py\<close>

subsection \<open>load_model\<close>

text \<open>
  \<^verbatim>\<open>load_model\<close> passes the name to the constructor. The cache decorator returns the
  stored model for a name that was loaded before; the constructor is a function of the
  name here, so the value returned is the same with and without the cache.
\<close>

definition load_model :: "'m backend \<Rightarrow> str \<Rightarrow> 'm io" where
  "load_model env model_name = external (CallLoadModel model_name) (SentenceTransformer env model_name)"

subsection \<open>preprocess_text\<close>

text \<open>The code points that \<^verbatim>\<open>str.isspace\<close> accepts, which \<^verbatim>\<open>str.strip()\<close> removes.\<close>

definition isspace :: "codepoint \<Rightarrow> bool" where
  "isspace c \<longleftrightarrow>
     (9 \<le> c \<and> c \<le> 13) \<or> (28 \<le> c \<and> c \<le> 32) \<or> c = 133 \<or> c = 160 \<or> c = 5760 \<or>
     (8192 \<le> c \<and> c \<le> 8202) \<or> c = 8232 \<or> c = 8233 \<or> c = 8239 \<or> c = 8287 \<or> c = 12288"

definition strip :: "str \<Rightarrow> str" where
  "strip t = rev (dropWhile isspace (rev (dropWhile isspace t)))"

text \<open>\<^verbatim>\<open>string.punctuation\<close>: the 32 ASCII punctuation characters.\<close>

definition punctuation :: "str" where
  "punctuation = [33..<48] @ [58..<65] @ [91..<97] @ [123..<127]"

definition preprocess_text :: "'m backend \<Rightarrow> str \<Rightarrow> bool \<Rightarrow> bool \<Rightarrow> str" where
  "preprocess_text env t lowercase remove_punctuation =
     (let t = (if lowercase then str_lower env t else t);
          t = (if remove_punctuation then filter (\<lambda>c. c \<notin> set punctuation) t else t)
      in strip t)"

text \<open>
  The call \<^verbatim>\<open>preprocess_text(text, **preprocess_options)\<close>: the dictionary's keys are
  bound to the two keyword parameters, a missing key takes the default \<open>False\<close>, and any
  other key is a \<open>TypeError\<close>.
\<close>

type_synonym options = "(str \<times> bool) list"

definition preprocess_text_kwargs :: "'m backend \<Rightarrow> str \<Rightarrow> options \<Rightarrow> error + str" where
  "preprocess_text_kwargs env t kwargs =
     (if \<forall>k \<in> set (map fst kwargs). k = py_str ''lowercase'' \<or> k = py_str ''remove_punctuation''
      then Inr (preprocess_text env t
                  (case map_of kwargs (py_str ''lowercase'') of None \<Rightarrow> False | Some b \<Rightarrow> b)
                  (case map_of kwargs (py_str ''remove_punctuation'') of None \<Rightarrow> False | Some b \<Rightarrow> b))
      else Inl TypeError)"

subsection \<open>get_similarity_interpretation, get_similarity_color\<close>

definition get_similarity_interpretation :: "pyfloat \<Rightarrow> str" where
  "get_similarity_interpretation score =
     (if float_gt score (Finite 0.8) then py_str ''Very Similar''
      else if float_gt score (Finite 0.6) then py_str ''Moderately Similar''
      else if float_gt score (Finite 0.3) then py_str ''Somewhat Similar''
      else py_str ''Not Similar'')"

definition get_similarity_color :: "pyfloat \<Rightarrow> str" where
  "get_similarity_color score =
     (if float_gt score (Finite 0.8) then py_str ''#28a745''
      else if float_gt score (Finite 0.6) then py_str ''#ffc107''
      else if float_gt score (Finite 0.3) then py_str ''#17a2b8''
      else py_str ''#dc3545'')"

subsection \<open>calculate_similarity\<close>

text \<open>
  The result tuple \<open>(similarity_score, processing_time, interpretation, token_info)\<close>;
  \<open>token_info\<close> is a dictionary, \<open>[]\<close> when it is empty.
\<close>

type_synonym similarity_result = "pyfloat \<times> pyfloat \<times> str \<times> (str \<times> pyval) list"

text \<open>
  The test \<^verbatim>\<open>if preprocess_options:\<close> fails for \<^verbatim>\<open>None\<close> and for the empty dictionary.
  When it holds, lines 39 and 40 replace both texts by their preprocessed forms.
\<close>

definition truthy :: "options option \<Rightarrow> bool" where
  "truthy preprocess_options = (case preprocess_options of None \<Rightarrow> False | Some d \<Rightarrow> d \<noteq> [])"

definition preprocess_both :: "'m backend \<Rightarrow> str \<Rightarrow> str \<Rightarrow> options option \<Rightarrow> (str \<times> str) io" where
  "preprocess_both env t1 t2 preprocess_options =
     (if truthy preprocess_options then
        and_then (lift (preprocess_text_kwargs env t1 (the preprocess_options))) (\<lambda>t1'.
        and_then (lift (preprocess_text_kwargs env t2 (the preprocess_options))) (\<lambda>t2'.
        ret (t1', t2')))
      else ret (t1, t2))"

definition calculate_similarity ::
  "'m backend \<Rightarrow> str \<Rightarrow> str \<Rightarrow> str \<Rightarrow> options option \<Rightarrow> similarity_result io" where
  "calculate_similarity env t1 t2 model_name preprocess_options =
     (if strip t1 = [] \<or> strip t2 = [] then
        ret (Finite 0, Finite 0, py_str ''Empty text detected'', [])
      else
        and_then (time_time env) (\<lambda>start_time.
        and_then (preprocess_both env t1 t2 preprocess_options) (\<lambda>(t1, t2).
        and_then (load_model env model_name) (\<lambda>model.
        and_then (external (CallTokenizer t1) (tokenizer_encode env model t1)) (\<lambda>tokens1.
        and_then (external (CallTokenizer t2) (tokenizer_encode env model t2)) (\<lambda>tokens2.
        and_then (external CallMaxSeqLength (get_max_seq_length env model)) (\<lambda>max_seq_length.
        let token_info =
              [(py_str ''text1_tokens'', PyInt (int (length tokens1))),
               (py_str ''text2_tokens'', PyInt (int (length tokens2))),
               (py_str ''total_tokens'', PyInt (int (length tokens1) + int (length tokens2))),
               (py_str ''max_seq_length'', max_seq_length)]
        in
        and_then (external (CallEncode [t1, t2]) (model_encode env model [t1, t2])) (\<lambda>embeddings.
        and_then (lift (getitem embeddings 0)) (\<lambda>e0.
        and_then (lift (getitem embeddings 1)) (\<lambda>e1.
        and_then (external (CallCosine [e0] [e1]) (cosine_similarity env [e0] [e1])) (\<lambda>similarity_matrix.
        and_then (lift (getitem similarity_matrix 0)) (\<lambda>row.
        and_then (lift (getitem row 0)) (\<lambda>similarity_score.
        and_then (time_time env) (\<lambda>end_time.
        let processing_time = float_sub env end_time start_time;
            label = get_similarity_interpretation similarity_score
        in ret (similarity_score, processing_time, label, token_info)))))))))))))))"

subsection \<open>calculate_batch_similarity\<close>

text \<open>
  One dictionary of the result list. The key \<^verbatim>\<open>interpretation\<close> is the field
  \<open>interpretation_label\<close>.
\<close>

record batch_item =
  pair_id :: int
  text1 :: str
  text2 :: str
  similarity_score :: pyfloat
  similarity_percentage :: pyfloat
  interpretation_label :: str
  processing_time :: pyfloat

text \<open>The expression \<^verbatim>\<open>text[:100] + '...' if len(text) > 100 else text\<close> of both branches.\<close>

definition preview :: "str \<Rightarrow> str" where
  "preview t = (if length t > 100 then take 100 t @ py_str ''...'' else t)"

text \<open>The body of the loop for a pair whose texts are both non-empty after stripping.\<close>

definition score_pair :: "'m backend \<Rightarrow> 'm \<Rightarrow> nat \<Rightarrow> str \<Rightarrow> str \<Rightarrow> batch_item io" where
  "score_pair env model i t1 t2 =
     and_then (time_time env) (\<lambda>start_time.
     and_then (external (CallEncode [t1, t2]) (model_encode env model [t1, t2])) (\<lambda>embeddings.
     and_then (lift (getitem embeddings 0)) (\<lambda>e0.
     and_then (lift (getitem embeddings 1)) (\<lambda>e1.
     and_then (external (CallCosine [e0] [e1]) (cosine_similarity env [e0] [e1])) (\<lambda>similarity_matrix.
     and_then (lift (getitem similarity_matrix 0)) (\<lambda>row.
     and_then (lift (getitem row 0)) (\<lambda>score.
     and_then (time_time env) (\<lambda>end_time.
     ret \<lparr>pair_id = int i + 1,
          text1 = preview t1,
          text2 = preview t2,
          similarity_score = score,
          similarity_percentage = float_mul env score (Finite 100),
          interpretation_label = get_similarity_interpretation score,
          processing_time = float_sub env end_time start_time\<rparr>))))))))"

definition empty_pair :: "nat \<Rightarrow> str \<Rightarrow> str \<Rightarrow> batch_item" where
  "empty_pair i t1 t2 =
     \<lparr>pair_id = int i + 1,
      text1 = preview t1,
      text2 = preview t2,
      similarity_score = Finite 0,
      similarity_percentage = Finite 0,
      interpretation_label = py_str ''Empty text detected'',
      processing_time = Finite 0\<rparr>"

text \<open>
  The \<^verbatim>\<open>for\<close> loop over \<^verbatim>\<open>enumerate(text_pairs)\<close>: \<open>i\<close> is the index of the next pair and
  \<open>results\<close> the list built so far. An exception in the body leaves the loop.
\<close>

fun batch_loop ::
  "'m backend \<Rightarrow> 'm \<Rightarrow> nat \<Rightarrow> (str \<times> str) list \<Rightarrow> batch_item list \<Rightarrow> batch_item list io" where
  "batch_loop env model i [] results w = (Inr results, w)"
| "batch_loop env model i ((t1, t2) # rest) results w =
     (if strip t1 \<noteq> [] \<and> strip t2 \<noteq> [] then
        (case score_pair env model i t1 t2 w of
           (Inl e, w') \<Rightarrow> (Inl e, w')
         | (Inr item, w') \<Rightarrow> batch_loop env model (Suc i) rest (results @ [item]) w')
      else batch_loop env model (Suc i) rest (results @ [empty_pair i t1 t2]) w)"

definition calculate_batch_similarity ::
  "'m backend \<Rightarrow> (str \<times> str) list \<Rightarrow> str \<Rightarrow> batch_item list io" where
  "calculate_batch_similarity env text_pairs model_name =
     and_then (load_model env model_name) (\<lambda>model. batch_loop env model 0 text_pairs [])"

subsection \<open>The model identifiers of config.py and helpers.py\<close>

definition MODEL_DESCRIPTIONS :: "str list" where
  "MODEL_DESCRIPTIONS =
     [py_str ''all-MiniLM-L6-v2'', py_str ''all-mpnet-base-v2'', py_str ''all-distilroberta-v1'',
      py_str ''paraphrase-multilingual-MiniLM-L12-v2'', py_str ''paraphrase-albert-small-v2'']"

section \<open>Specification functions\<close>

text \<open>The number of clock readings among the calls made so far.\<close>

definition clock_reads :: "call list \<Rightarrow> nat" where
  "clock_reads w = length (filter (\<lambda>c. c = CallTime) w)"

text \<open>
  The embedding and scoring steps that both pipelines perform for a pair of texts
  (lines 62-66 and 105-107), as a function of the backend alone.
\<close>

definition raw_score :: "'m backend \<Rightarrow> 'm \<Rightarrow> str \<Rightarrow> str \<Rightarrow> error + pyfloat" where
  "raw_score env model t1 t2 =
     (case model_encode env model [t1, t2] of Inl e \<Rightarrow> Inl e | Inr embeddings \<Rightarrow>
     (case getitem embeddings 0 of Inl e \<Rightarrow> Inl e | Inr e0 \<Rightarrow>
     (case getitem embeddings 1 of Inl e \<Rightarrow> Inl e | Inr e1 \<Rightarrow>
     (case cosine_similarity env [e0] [e1] of Inl e \<Rightarrow> Inl e | Inr similarity_matrix \<Rightarrow>
     (case getitem similarity_matrix 0 of Inl e \<Rightarrow> Inl e | Inr row \<Rightarrow>
      getitem row 0)))))"

text \<open>The test \<^verbatim>\<open>text1.strip() and text2.strip()\<close> of the loop.\<close>

definition nonblank :: "str \<times> str \<Rightarrow> bool" where
  "nonblank p \<longleftrightarrow> strip (fst p) \<noteq> [] \<and> strip (snd p) \<noteq> []"

text \<open>What the loop appends for the pair at index \<open>k\<close>.\<close>

definition item_of :: "'m backend \<Rightarrow> 'm \<Rightarrow> nat \<Rightarrow> str \<times> str \<Rightarrow> batch_item \<Rightarrow> bool" where
  "item_of env model k p item \<longleftrightarrow>
     pair_id item = int k + 1 \<and> text1 item = preview (fst p) \<and> text2 item = preview (snd p) \<and>
     (if nonblank p then raw_score env model (fst p) (snd p) = Inr (similarity_score item)
      else item = empty_pair k (fst p) (snd p))"

text \<open>
  \<open>p\<close> is the preview of the text \<open>t\<close>: the text itself when it has at most 100 code
  points, otherwise its first 100 code points followed by three full stops.
\<close>

definition is_preview :: "str \<Rightarrow> str \<Rightarrow> bool" where
  "is_preview t p \<longleftrightarrow>
     length p \<le> 103 \<and>
     (100 < length t \<longrightarrow> p = take 100 t @ py_str ''...'' \<and> length p = 103) \<and>
     (length t \<le> 100 \<longrightarrow> p = t)"

text \<open>
  \<open>r\<close> is the text \<open>u\<close> with its leading and trailing whitespace removed: \<open>u\<close> is \<open>r\<close>
  between two runs of whitespace, and \<open>r\<close> neither starts nor ends with whitespace.
\<close>

definition is_trimmed :: "str \<Rightarrow> str \<Rightarrow> bool" where
  "is_trimmed u r \<longleftrightarrow>
     (\<exists>pre post. u = pre @ r @ post \<and> (\<forall>c \<in> set pre. isspace c) \<and> (\<forall>c \<in> set post. isspace c)) \<and>
     (r \<noteq> [] \<longrightarrow> \<not> isspace (hd r) \<and> \<not> isspace (last r))"

section \<open>A concrete backend\<close>

text \<open>
  A small backend on which the pipelines can be run: it knows the five configured
  models and one more, embeds a text by its length, and fails to embed a text that
  contains the code point 0.
\<close>

definition ascii_lower :: "str \<Rightarrow> str" where
  "ascii_lower t = map (\<lambda>c. if 65 \<le> c \<and> c \<le> 90 then c + 32 else c) t"

fun toy_arith :: "(real \<Rightarrow> real \<Rightarrow> real) \<Rightarrow> pyfloat \<Rightarrow> pyfloat \<Rightarrow> pyfloat" where
  "toy_arith f (Finite a) (Finite b) = Finite (f a b)"
| "toy_arith f _ _ = NaN"

definition toy_backend :: "nat backend" where
  "toy_backend =
     \<lparr>SentenceTransformer = (\<lambda>name.
        if name \<in> set MODEL_DESCRIPTIONS \<or> name = py_str ''all-MiniLM-L12-v2'' then Inr 0
        else Inl (Raised ''OSError'')),
      tokenizer_encode = (\<lambda>m t. Inr (map int t)),
      get_max_seq_length = (\<lambda>m. Inr (PyInt 256)),
      model_encode = (\<lambda>m ts.
        if \<exists>t \<in> set ts. 0 \<in> set t then Inl (Raised ''RuntimeError'')
        else Inr (map (\<lambda>t. [Finite (real (length t)), Finite 1]) ts)),
      cosine_similarity = (\<lambda>xs ys. Inr [[if xs = ys then Finite 1 else Finite 0.5]]),
      clock = (\<lambda>n. Finite (real n)),
      str_lower = ascii_lower,
      float_mul = toy_arith (\<lambda>a b. a * b),
      float_sub = toy_arith (\<lambda>a b. a - b)\<rparr>"

section \<open>Basic facts\<close>

lemma py_str_eq_iff [simp]: "py_str a = py_str b \<longleftrightarrow> a = b"
  unfolding py_str_def by (simp add: inj_on_def)

lemma float_gt_Finite_mono: "float_gt s (Finite a) \<Longrightarrow> b \<le> a \<Longrightarrow> float_gt s (Finite b)"
  by (cases s) auto

lemma float_gt_not_NaN: "float_gt s t \<Longrightarrow> s \<noteq> NaN"
  by (cases s) auto

subsection \<open>Running the primitives\<close>

lemma run_ret: "and_then (ret x) f w = f x w"
  by (simp add: and_then_def ret_def)

lemma run_lift: "and_then (lift r) f w = (case r of Inl e \<Rightarrow> (Inl e, w) | Inr x \<Rightarrow> f x w)"
  by (simp add: and_then_def lift_def split: sum.splits)

lemma run_external:
  "and_then (external c r) f w = (case r of Inl e \<Rightarrow> (Inl e, w @ [c]) | Inr x \<Rightarrow> f x (w @ [c]))"
  by (simp add: and_then_def external_def split: sum.splits)

lemma run_time: "and_then (time_time env) f w = f (clock env (clock_reads w)) (w @ [CallTime])"
  by (simp add: and_then_def time_time_def clock_reads_def)

lemma run_load_model:
  "and_then (load_model env name) f w =
     (case SentenceTransformer env name of
        Inl e \<Rightarrow> (Inl e, w @ [CallLoadModel name])
      | Inr m \<Rightarrow> f m (w @ [CallLoadModel name]))"
  by (simp add: load_model_def run_external)

lemmas run_simps = run_ret run_lift run_external run_time run_load_model ret_def

subsection \<open>The loop of the batch\<close>

lemma score_pair_result:
  "fst (score_pair env model i t1 t2 w) =
     (case raw_score env model t1 t2 of
        Inl e \<Rightarrow> Inl e
      | Inr s \<Rightarrow> Inr \<lparr>pair_id = int i + 1, text1 = preview t1, text2 = preview t2,
                    similarity_score = s, similarity_percentage = float_mul env s (Finite 100),
                    interpretation_label = get_similarity_interpretation s,
                    processing_time =
                      float_sub env (clock env (Suc (clock_reads w))) (clock env (clock_reads w))\<rparr>)"
  by (simp add: score_pair_def raw_score_def run_simps clock_reads_def split: sum.splits)

lemma batch_loop_Cons:
  "fst (batch_loop env model i (p # rest) results w) =
     (if nonblank p then
        (case fst (score_pair env model i (fst p) (snd p) w) of
           Inl e \<Rightarrow> Inl e
         | Inr item \<Rightarrow>
             fst (batch_loop env model (Suc i) rest (results @ [item])
                    (snd (score_pair env model i (fst p) (snd p) w))))
      else fst (batch_loop env model (Suc i) rest (results @ [empty_pair i (fst p) (snd p)]) w))"
  by (cases p) (simp add: nonblank_def split: prod.splits sum.splits)

lemma batch_loop_Inr:
  "fst (batch_loop env model i pairs results w) = Inr rs \<Longrightarrow>
   \<exists>items. rs = results @ items \<and> length items = length pairs \<and>
     (\<forall>j < length pairs. item_of env model (i + j) (pairs ! j) (items ! j))"
proof (induction pairs arbitrary: i results w)
  case Nil
  then show ?case by simp
next
  case (Cons p rest)
  show ?case
  proof (cases "nonblank p")
    case True
    with Cons.prems obtain item where
      item: "fst (score_pair env model i (fst p) (snd p) w) = Inr item" and
      rest: "fst (batch_loop env model (Suc i) rest (results @ [item])
                (snd (score_pair env model i (fst p) (snd p) w))) = Inr rs"
      by (auto simp: batch_loop_Cons split: sum.splits)
    from item have here: "item_of env model i p item"
      using True by (auto simp: score_pair_result item_of_def split: sum.splits)
    from Cons.IH [OF rest] obtain items where
      items: "rs = (results @ [item]) @ items" "length items = length rest"
        "\<forall>j < length rest. item_of env model (Suc i + j) (rest ! j) (items ! j)"
      by blast
    have "\<forall>j < length (p # rest). item_of env model (i + j) ((p # rest) ! j) ((item # items) ! j)"
      using here items(3) by (auto simp: nth_Cons split: nat.splits)
    with items(1,2) show ?thesis
      by (intro exI [of _ "item # items"]) simp
  next
    case False
    with Cons.prems have
      rest: "fst (batch_loop env model (Suc i) rest (results @ [empty_pair i (fst p) (snd p)]) w) = Inr rs"
      by (simp add: batch_loop_Cons)
    have here: "item_of env model i p (empty_pair i (fst p) (snd p))"
      using False by (simp add: item_of_def empty_pair_def)
    from Cons.IH [OF rest] obtain items where
      items: "rs = (results @ [empty_pair i (fst p) (snd p)]) @ items" "length items = length rest"
        "\<forall>j < length rest. item_of env model (Suc i + j) (rest ! j) (items ! j)"
      by blast
    have "\<forall>j < length (p # rest).
        item_of env model (i + j) ((p # rest) ! j) ((empty_pair i (fst p) (snd p) # items) ! j)"
      using here items(3) by (auto simp: nth_Cons split: nat.splits)
    with items(1,2) show ?thesis
      by (intro exI [of _ "empty_pair i (fst p) (snd p) # items"]) simp
  qed
qed

text \<open>The loop returns exactly when every non-blank pair can be scored.\<close>

lemma batch_loop_returns_iff:
  "(\<exists>rs. fst (batch_loop env model i pairs results w) = Inr rs) \<longleftrightarrow>
   (\<forall>p \<in> set pairs. nonblank p \<longrightarrow> (\<exists>s. raw_score env model (fst p) (snd p) = Inr s))"
proof (induction pairs arbitrary: i results w)
  case Nil
  then show ?case by simp
next
  case (Cons p rest)
  show ?case
  proof (cases "nonblank p")
    case True
    show ?thesis
    proof (cases "raw_score env model (fst p) (snd p)")
      case (Inl e)
      with True show ?thesis
        by (auto simp: batch_loop_Cons score_pair_result)
    next
      case (Inr s)
      with True show ?thesis
        using Cons.IH by (simp add: batch_loop_Cons score_pair_result)
    qed
  next
    case False
    then show ?thesis
      using Cons.IH by (simp add: batch_loop_Cons)
  qed
qed

text \<open>The exception of the first pair that cannot be scored leaves the loop.\<close>

lemma batch_loop_first_failure:
  assumes "k < length pairs" and "nonblank (pairs ! k)"
    and "raw_score env model (fst (pairs ! k)) (snd (pairs ! k)) = Inl e"
    and "\<forall>j < k. nonblank (pairs ! j) \<longrightarrow> (\<exists>s. raw_score env model (fst (pairs ! j)) (snd (pairs ! j)) = Inr s)"
  shows "fst (batch_loop env model i pairs results w) = Inl e"
  using assms
proof (induction pairs arbitrary: i k results w)
  case Nil
  then show ?case by simp
next
  case (Cons p rest)
  show ?case
  proof (cases k)
    case 0
    with Cons.prems show ?thesis
      by (simp add: batch_loop_Cons score_pair_result)
  next
    case (Suc k')
    with Cons.prems have k': "k' < length rest" "nonblank (rest ! k')"
      "raw_score env model (fst (rest ! k')) (snd (rest ! k')) = Inl e"
      by simp_all
    from Cons.prems(4) Suc have before:
      "\<forall>j < k'. nonblank (rest ! j) \<longrightarrow> (\<exists>s. raw_score env model (fst (rest ! j)) (snd (rest ! j)) = Inr s)"
      by (metis Suc_less_eq nth_Cons_Suc)
    from Cons.prems(4) Suc have first: "nonblank p \<longrightarrow> (\<exists>s. raw_score env model (fst p) (snd p) = Inr s)"
      by (metis nth_Cons_0 zero_less_Suc)
    show ?thesis
    proof (cases "nonblank p")
      case True
      with first obtain s where "raw_score env model (fst p) (snd p) = Inr s"
        by blast
      with True show ?thesis
        using Cons.IH [OF k' before] by (simp add: batch_loop_Cons score_pair_result)
    next
      case False
      then show ?thesis
        using Cons.IH [OF k' before] by (simp add: batch_loop_Cons)
    qed
  qed
qed


section \<open>The classifier\<close>

text \<open>
  C2. For every score \<open>s\<close> the classifier returns Very Similar exactly when \<open>s > 0.8\<close>,
  Moderately Similar exactly when \<open>0.6 < s \<le> 0.8\<close>, Somewhat Similar exactly when
  \<open>0.3 < s \<le> 0.6\<close>, and Not Similar otherwise (which includes NaN); the score \<open>0.8\<close>
  itself is Moderately Similar.
\<close>

theorem classify_thresholds:
  "(get_similarity_interpretation s = py_str ''Very Similar'' \<longleftrightarrow> float_gt s (Finite 0.8)) \<and>
   (get_similarity_interpretation s = py_str ''Moderately Similar'' \<longleftrightarrow>
      float_gt s (Finite 0.6) \<and> float_le s (Finite 0.8)) \<and>
   (get_similarity_interpretation s = py_str ''Somewhat Similar'' \<longleftrightarrow>
      float_gt s (Finite 0.3) \<and> float_le s (Finite 0.6)) \<and>
   (get_similarity_interpretation s = py_str ''Not Similar'' \<longleftrightarrow> \<not> float_gt s (Finite 0.3)) \<and>
   get_similarity_interpretation (Finite 0.8) = py_str ''Moderately Similar''"
proof -
  have m1: "float_gt s (Finite 0.8) \<Longrightarrow> float_gt s (Finite 0.6)"
    by (erule float_gt_Finite_mono) simp
  have m2: "float_gt s (Finite 0.6) \<Longrightarrow> float_gt s (Finite 0.3)"
    by (erule float_gt_Finite_mono) simp
  have n: "\<And>t. float_gt s t \<Longrightarrow> s \<noteq> NaN"
    by (rule float_gt_not_NaN)
  show ?thesis
    using m1 m2 n by (auto simp: get_similarity_interpretation_def float_le_def)
qed

theorem classify_thresholds_witness:
  "get_similarity_interpretation (Finite 0.8000001) = py_str ''Very Similar'' \<and>
   get_similarity_interpretation (Finite 0.7) = py_str ''Moderately Similar'' \<and>
   get_similarity_interpretation (Finite 0.6) = py_str ''Somewhat Similar'' \<and>
   get_similarity_interpretation (Finite 0.3) = py_str ''Not Similar'' \<and>
   get_similarity_interpretation NaN = py_str ''Not Similar''"
  using classify_thresholds [of "Finite 0.8000001"] classify_thresholds [of "Finite 0.7"]
    classify_thresholds [of "Finite 0.6"] classify_thresholds [of "Finite 0.3"]
    classify_thresholds [of NaN]
  by (simp add: float_le_def)

text \<open>
  C10. Two scores have the same interpretation if and only if they have the same
  colour: both functions cut the scores at 0.8, 0.6 and 0.3.
\<close>

theorem category_color_same_partition:
  "get_similarity_interpretation s1 = get_similarity_interpretation s2 \<longleftrightarrow>
   get_similarity_color s1 = get_similarity_color s2"
  by (simp add: get_similarity_interpretation_def get_similarity_color_def)

subsection \<open>Evaluating the pipelines on the concrete backend\<close>

lemmas toy_simps = toy_backend_def MODEL_DESCRIPTIONS_def py_str_def isspace_def strip_def
  calculate_batch_similarity_def calculate_similarity_def score_pair_def empty_pair_def
  preview_def getitem_def run_simps clock_reads_def get_similarity_interpretation_def

lemma batch_result:
  "fst (calculate_batch_similarity env pairs name w) =
     (case SentenceTransformer env name of
        Inl e \<Rightarrow> Inl e
      | Inr model \<Rightarrow> fst (batch_loop env model 0 pairs [] (w @ [CallLoadModel name])))"
  by (simp add: calculate_batch_similarity_def run_load_model split: sum.splits)

section \<open>The batch pipeline: length and pair ids\<close>

lemma batch_result_shape:
  assumes "fst (calculate_batch_similarity env text_pairs model_name w) = Inr rs"
  shows "\<exists>model. SentenceTransformer env model_name = Inr model \<and>
           length rs = length text_pairs \<and>
           (\<forall>i < length text_pairs. item_of env model i (text_pairs ! i) (rs ! i))"
proof -
  from assms obtain model where model: "SentenceTransformer env model_name = Inr model"
    and "fst (batch_loop env model 0 text_pairs [] (w @ [CallLoadModel model_name])) = Inr rs"
    by (auto simp: batch_result split: sum.splits)
  from batch_loop_Inr [OF this(2)] have "length rs = length text_pairs"
    and "\<forall>j < length text_pairs. item_of env model j (text_pairs ! j) (rs ! j)"
    by auto
  with model show ?thesis
    by blast
qed

lemma distinct_pair_ids:
  assumes "\<forall>i < length rs. pair_id (rs ! i) = int i + 1"
  shows "distinct (map pair_id rs)"
proof -
  from assms have "map pair_id rs = map (\<lambda>i. int i + 1) [0..<length rs]"
    by (intro nth_equalityI) simp_all
  moreover have "distinct (map (\<lambda>i. int i + 1) [0..<length rs])"
    by (simp add: distinct_map inj_on_def)
  ultimately show ?thesis
    by simp
qed

text \<open>
  C4. For every list of pairs (the empty list too), when the model loads and every pair
  whose texts are both non-empty after stripping can be embedded and scored,
  \<open>calculate_batch_similarity\<close> returns a result list: it has the length of the input,
  its \<open>i\<close>-th entry (counting from 0) is the entry of the \<open>i\<close>-th pair and has
  \<open>pair_id = i + 1\<close>, and so the pair ids are pairwise distinct.
\<close>

theorem batch_length_and_pair_ids:
  assumes "SentenceTransformer env model_name = Inr model"
    and "\<forall>p \<in> set text_pairs. nonblank p \<longrightarrow> (\<exists>s. raw_score env model (fst p) (snd p) = Inr s)"
  shows "\<exists>rs. fst (calculate_batch_similarity env text_pairs model_name w) = Inr rs \<and>
           length rs = length text_pairs \<and>
           (\<forall>i < length text_pairs.
              pair_id (rs ! i) = int i + 1 \<and> item_of env model i (text_pairs ! i) (rs ! i)) \<and>
           distinct (map pair_id rs)"
proof -
  from assms obtain rs where
    rs: "fst (calculate_batch_similarity env text_pairs model_name w) = Inr rs"
    using batch_loop_returns_iff [of env model 0 text_pairs "[]" "w @ [CallLoadModel model_name]"]
    by (auto simp: batch_result)
  from batch_result_shape [OF rs] assms(1) have len: "length rs = length text_pairs"
    and items: "\<forall>i < length text_pairs. item_of env model i (text_pairs ! i) (rs ! i)"
    by auto
  from items have ids: "\<forall>i < length text_pairs. pair_id (rs ! i) = int i + 1"
    by (simp add: item_of_def)
  with len have "distinct (map pair_id rs)"
    by (intro distinct_pair_ids) simp
  with rs len ids items show ?thesis
    by blast
qed

text \<open>
  The batch \<^verbatim>\<open>[("a", "a"), ("", "b")]\<close> and the empty batch on the concrete backend.
\<close>

theorem batch_length_and_pair_ids_witness:
  "SentenceTransformer toy_backend (py_str ''all-MiniLM-L6-v2'') = Inr 0 \<and>
   raw_score toy_backend 0 (py_str ''a'') (py_str ''a'') = Inr (Finite 1) \<and>
   \<not> nonblank ([], py_str ''b'') \<and>
   fst (calculate_batch_similarity toy_backend [(py_str ''a'', py_str ''a''), ([], py_str ''b'')]
         (py_str ''all-MiniLM-L6-v2'') []) =
     Inr [\<lparr>pair_id = 1, text1 = py_str ''a'', text2 = py_str ''a'', similarity_score = Finite 1,
            similarity_percentage = Finite 100, interpretation_label = py_str ''Very Similar'',
            processing_time = Finite 1\<rparr>,
          \<lparr>pair_id = 2, text1 = [], text2 = py_str ''b'', similarity_score = Finite 0,
            similarity_percentage = Finite 0, interpretation_label = py_str ''Empty text detected'',
            processing_time = Finite 0\<rparr>] \<and>
   fst (calculate_batch_similarity toy_backend [] (py_str ''all-MiniLM-L6-v2'') []) = Inr []"
proof -
  let ?pairs = "[(py_str ''a'', py_str ''a''), ([], py_str ''b'')]"
  let ?name = "py_str ''all-MiniLM-L6-v2''"
  have load: "SentenceTransformer toy_backend ?name = Inr 0"
    by (simp add: toy_simps)
  have s: "raw_score toy_backend 0 (py_str ''a'') (py_str ''a'') = Inr (Finite 1)"
    by (simp add: raw_score_def toy_simps)
  have blank: "\<not> nonblank ([], py_str ''b'')"
    by (simp add: nonblank_def strip_def)
  from s blank have ok: "\<forall>p \<in> set ?pairs. nonblank p \<longrightarrow>
      (\<exists>s. raw_score toy_backend 0 (fst p) (snd p) = Inr s)"
    by simp
  have ok0: "\<forall>p \<in> set ([] :: (str \<times> str) list). nonblank p \<longrightarrow>
      (\<exists>s. raw_score toy_backend 0 (fst p) (snd p) = Inr s)"
    by simp
  from batch_length_and_pair_ids [OF load ok, of "[]"] batch_length_and_pair_ids [OF load ok0, of "[]"]
    load s blank
  show ?thesis
    by (auto simp: toy_simps)
qed


section \<open>The text normaliser\<close>

lemma dropWhile_all_iff: "(\<forall>x \<in> set (dropWhile P xs). P x) \<longleftrightarrow> dropWhile P xs = []"
proof
  assume a: "\<forall>x \<in> set (dropWhile P xs). P x"
  show "dropWhile P xs = []"
  proof (rule ccontr)
    assume n: "dropWhile P xs \<noteq> []"
    then have "\<not> P (hd (dropWhile P xs))"
      by (rule hd_dropWhile)
    moreover from n have "hd (dropWhile P xs) \<in> set (dropWhile P xs)"
      by simp
    ultimately show False
      using a by blast
  qed
next
  assume "dropWhile P xs = []"
  then show "\<forall>x \<in> set (dropWhile P xs). P x"
    by (metis empty_iff empty_set)
qed

lemma strip_decomp:
  "t = takeWhile isspace t @ strip t @ rev (takeWhile isspace (rev (dropWhile isspace t)))"
proof -
  let ?d = "dropWhile isspace t"
  have "?d = rev (takeWhile isspace (rev ?d) @ dropWhile isspace (rev ?d))"
    by (simp only: takeWhile_dropWhile_id rev_rev_ident)
  also have "\<dots> = strip t @ rev (takeWhile isspace (rev ?d))"
    by (simp only: rev_append strip_def)
  finally have d: "?d = strip t @ rev (takeWhile isspace (rev ?d))" .
  have "t = takeWhile isspace t @ ?d"
    by simp
  with d show ?thesis
    by simp
qed

lemma strip_eq_Nil_iff: "strip t = [] \<longleftrightarrow> (\<forall>c \<in> set t. isspace c)"
proof -
  have "strip t = [] \<longleftrightarrow> (\<forall>c \<in> set (dropWhile isspace t). isspace c)"
    by (simp add: strip_def)
  also have "\<dots> \<longleftrightarrow> dropWhile isspace t = []"
    by (rule dropWhile_all_iff)
  also have "\<dots> \<longleftrightarrow> (\<forall>c \<in> set t. isspace c)"
    by simp
  finally show ?thesis .
qed

lemma strip_last: "strip t \<noteq> [] \<Longrightarrow> \<not> isspace (last (strip t))"
  unfolding strip_def by (simp add: last_rev hd_dropWhile)

lemma strip_hd:
  assumes "strip t \<noteq> []"
  shows "\<not> isspace (hd (strip t))"
proof -
  let ?d = "dropWhile isspace t"
  have "?d = strip t @ rev (takeWhile isspace (rev ?d))"
    using strip_decomp [of t] by (metis append_eq_append_conv takeWhile_dropWhile_id)
  with assms have "hd ?d = hd (strip t)"
    by (metis hd_append2)
  moreover from assms have "?d \<noteq> []"
    by (auto simp: strip_eq_Nil_iff)
  ultimately show ?thesis
    using hd_dropWhile [of isspace t] by simp
qed

lemma is_trimmed_strip: "is_trimmed u (strip u)"
proof -
  have "\<forall>c \<in> set (takeWhile isspace u). isspace c"
    by (auto dest: set_takeWhileD)
  moreover have "\<forall>c \<in> set (rev (takeWhile isspace (rev (dropWhile isspace u)))). isspace c"
    by (auto dest: set_takeWhileD)
  ultimately have "\<exists>pre post. u = pre @ strip u @ post \<and> (\<forall>c \<in> set pre. isspace c) \<and>
      (\<forall>c \<in> set post. isspace c)"
    using strip_decomp [of u] by blast
  then show ?thesis
    by (simp add: is_trimmed_def strip_hd strip_last)
qed

lemma is_trimmed_unique:
  assumes "is_trimmed u r"
  shows "r = strip u"
proof -
  from assms obtain pre post where u: "u = pre @ r @ post"
    and pre: "\<forall>c \<in> set pre. isspace c" and post: "\<forall>c \<in> set post. isspace c"
    and ends: "r \<noteq> [] \<longrightarrow> \<not> isspace (hd r) \<and> \<not> isspace (last r)"
    by (auto simp: is_trimmed_def)
  show ?thesis
  proof (cases "r = []")
    case True
    with u pre post have "\<forall>c \<in> set u. isspace c"
      by auto
    then have "strip u = []"
      by (simp add: strip_eq_Nil_iff)
    with True show ?thesis
      by simp
  next
    case False
    with ends have h: "\<not> isspace (hd r)" and l: "\<not> isspace (last r)"
      by simp_all
    from False h have "dropWhile isspace (r @ post) = r @ post"
      by (simp add: dropWhile_eq_self_iff)
    with pre u have d: "dropWhile isspace u = r @ post"
      by simp
    from False l have "dropWhile isspace (rev r) = rev r"
      by (simp add: dropWhile_eq_self_iff hd_rev)
    moreover from post have "dropWhile isspace (rev post @ rev r) = dropWhile isspace (rev r)"
      by (intro dropWhile_append2) simp
    ultimately have "dropWhile isspace (rev post @ rev r) = rev r"
      by (simp only:)
    with d show ?thesis
      by (simp add: strip_def)
  qed
qed

text \<open>
  C8. With both options false, \<open>preprocess_text\<close> returns the text with its leading and
  trailing whitespace removed, so a text of whitespace only (the empty text too) is
  normalised to the empty text, also when punctuation is removed. Trimming is applied
  under every setting of the options: the result is the text after the lowercasing and
  the removal of punctuation that the options select, with its leading and trailing
  whitespace removed, and it is empty exactly when that text is whitespace only.
\<close>

theorem normalize_no_options_is_strip:
  "preprocess_text env t False False = strip t \<and>
   is_trimmed t (preprocess_text env t False False) \<and>
   ((\<forall>c \<in> set t. isspace c) \<longrightarrow> preprocess_text env t False remove_punctuation = []) \<and>
   is_trimmed
     (let u = (if lowercase then str_lower env t else t)
      in if remove_punctuation then filter (\<lambda>c. c \<notin> set punctuation) u else u)
     (preprocess_text env t lowercase remove_punctuation) \<and>
   (preprocess_text env t lowercase remove_punctuation = [] \<longleftrightarrow>
      (\<forall>c \<in> set (let u = (if lowercase then str_lower env t else t)
                   in if remove_punctuation then filter (\<lambda>c. c \<notin> set punctuation) u else u).
         isspace c))"
proof (intro conjI)
  show "preprocess_text env t False False = strip t"
    by (simp add: preprocess_text_def)
next
  show "is_trimmed t (preprocess_text env t False False)"
    by (simp add: preprocess_text_def is_trimmed_strip)
next
  show "(\<forall>c \<in> set t. isspace c) \<longrightarrow> preprocess_text env t False remove_punctuation = []"
    by (simp add: preprocess_text_def strip_eq_Nil_iff)
next
  show "is_trimmed
     (let u = (if lowercase then str_lower env t else t)
      in if remove_punctuation then filter (\<lambda>c. c \<notin> set punctuation) u else u)
     (preprocess_text env t lowercase remove_punctuation)"
    by (simp add: preprocess_text_def Let_def is_trimmed_strip)
next
  show "preprocess_text env t lowercase remove_punctuation = [] \<longleftrightarrow>
      (\<forall>c \<in> set (let u = (if lowercase then str_lower env t else t)
                   in if remove_punctuation then filter (\<lambda>c. c \<notin> set punctuation) u else u).
         isspace c)"
    by (simp add: preprocess_text_def Let_def strip_eq_Nil_iff)
qed

text \<open>
  A padded text without options, with lowercasing and with both options, and a text of
  five kinds of whitespace.
\<close>

theorem normalize_no_options_is_strip_witness:
  "preprocess_text toy_backend (py_str ''  Hi, You!  '') False False = py_str ''Hi, You!'' \<and>
   preprocess_text toy_backend (py_str '' Ab '') True False = py_str ''ab'' \<and>
   preprocess_text toy_backend (py_str ''  Hi, You!  '') True True = py_str ''hi you'' \<and>
   preprocess_text toy_backend [32, 9, 10, 160, 12288] False True = [] \<and>
   is_trimmed (py_str '' ab '') (py_str ''ab'') \<and>
   \<not> is_trimmed (py_str '' ab '') []"
proof -
  have ws: "\<forall>c \<in> set [32, 9, 10, 160, 12288]. isspace c"
    by (simp add: isspace_def)
  have ev: "preprocess_text toy_backend (py_str '' Ab '') True False = py_str ''ab''"
    "str_lower toy_backend (py_str '' Ab '') = py_str '' ab ''"
    by (simp_all add: preprocess_text_def toy_simps ascii_lower_def)
  have no: "\<not> is_trimmed (py_str '' ab '') []"
    using is_trimmed_unique [of "py_str '' ab ''" "[]"] by (auto simp: toy_simps)
  from normalize_no_options_is_strip [where env = toy_backend and t = "py_str ''  Hi, You!  ''"
      and lowercase = True and remove_punctuation = True]
    normalize_no_options_is_strip [where env = toy_backend and t = "py_str '' Ab ''"
      and lowercase = True and remove_punctuation = False]
    normalize_no_options_is_strip [where env = toy_backend and t = "[32, 9, 10, 160, 12288]"
      and lowercase = False and remove_punctuation = True] ws ev no
  show ?thesis
    by (simp add: preprocess_text_def toy_simps ascii_lower_def punctuation_def)
qed

section \<open>The single-pair pipeline: blank input\<close>

text \<open>
  C3. If either text is empty after stripping, \<open>calculate_similarity\<close> returns the tuple
  \<open>(0.0, 0.0, "Empty text detected", {})\<close> for every model name, every options value and
  every backend, and makes no external call: the list of calls is returned unchanged, so
  no model is loaded, nothing is tokenised or embedded and the clock is not read.
\<close>

theorem empty_text_fast_path:
  assumes "strip t1 = [] \<or> strip t2 = []"
  shows "calculate_similarity env t1 t2 model_name preprocess_options w =
           (Inr (Finite 0, Finite 0, py_str ''Empty text detected'', []), w)"
  using assms by (simp add: calculate_similarity_def ret_def)

text \<open>
  A text of blanks, a model the backend does not know and an options key that
  \<open>preprocess_text\<close> does not accept: the tuple is returned all the same.
\<close>

theorem empty_text_fast_path_witness:
  "(strip (py_str ''   '') = [] \<or> strip (py_str ''hello'') = []) \<and>
   calculate_similarity toy_backend (py_str ''   '') (py_str ''hello'') (py_str ''no-such-model'')
       (Some [(py_str ''bogus'', True)]) [] =
     (Inr (Finite 0, Finite 0, py_str ''Empty text detected'', []), [])"
proof -
  have h: "strip (py_str ''   '') = [] \<or> strip (py_str ''hello'') = []"
    by (simp add: strip_def py_str_def isspace_def)
  from h empty_text_fast_path [OF h] show ?thesis
    by simp
qed

section \<open>The batch pipeline: previews\<close>

lemma is_preview_preview: "is_preview t (preview t)"
  by (simp add: is_preview_def preview_def py_str_def)

text \<open>
  C5, as the claim states it: every preview has at most 100 code points. A text of 101
  code points has a preview of 103: its first 100 code points and the three full stops.
\<close>

theorem preview_longer_than_100:
  "fst (calculate_batch_similarity toy_backend [(replicate 101 97, py_str ''b'')]
         (py_str ''all-MiniLM-L6-v2'') []) =
     Inr [\<lparr>pair_id = 1, text1 = replicate 100 97 @ py_str ''...'', text2 = py_str ''b'',
            similarity_score = Finite 0.5, similarity_percentage = Finite 50,
            interpretation_label = py_str ''Somewhat Similar'', processing_time = Finite 1\<rparr>] \<and>
   length (replicate 100 97 @ py_str ''...'') = 103"
  by (simp add: toy_simps)

text \<open>
  C5, amended. In every result of \<open>calculate_batch_similarity\<close> each preview has at most
  103 code points: a text of more than 100 code points appears as its first 100 code
  points followed by \<^verbatim>\<open>...\<close> (103 code points in all), and a text of at most 100 code
  points appears unchanged.
\<close>

theorem previews_at_most_103:
  assumes "fst (calculate_batch_similarity env text_pairs model_name w) = Inr rs"
    and "i < length text_pairs"
  shows "is_preview (fst (text_pairs ! i)) (text1 (rs ! i)) \<and>
         is_preview (snd (text_pairs ! i)) (text2 (rs ! i))"
proof -
  from assms(1) obtain model where
    "fst (batch_loop env model 0 text_pairs [] (w @ [CallLoadModel model_name])) = Inr rs"
    by (auto simp: batch_result split: sum.splits)
  from batch_loop_Inr [OF this] assms(2)
  have "item_of env model i (text_pairs ! i) (rs ! i)"
    by auto
  then show ?thesis
    by (simp add: item_of_def is_preview_preview)
qed

text \<open>A pair of a text of 150 code points and a short text.\<close>

theorem previews_at_most_103_witness:
  "fst (calculate_batch_similarity toy_backend [(replicate 150 97, py_str ''short'')]
         (py_str ''all-MiniLM-L6-v2'') []) =
     Inr [\<lparr>pair_id = 1, text1 = replicate 100 97 @ py_str ''...'', text2 = py_str ''short'',
            similarity_score = Finite 0.5, similarity_percentage = Finite 50,
            interpretation_label = py_str ''Somewhat Similar'', processing_time = Finite 1\<rparr>] \<and>
   is_preview (replicate 150 97) (replicate 100 97 @ py_str ''...'') \<and>
   is_preview (py_str ''short'') (py_str ''short'')"
proof -
  let ?pairs = "[(replicate 150 97, py_str ''short'')]"
  have rs: "fst (calculate_batch_similarity toy_backend ?pairs (py_str ''all-MiniLM-L6-v2'') []) =
     Inr [\<lparr>pair_id = 1, text1 = replicate 100 97 @ py_str ''...'', text2 = py_str ''short'',
            similarity_score = Finite 0.5, similarity_percentage = Finite 50,
            interpretation_label = py_str ''Somewhat Similar'', processing_time = Finite 1\<rparr>]"
    by (simp add: toy_simps)
  have i: "0 < length ?pairs"
    by simp
  from previews_at_most_103 [OF rs i] rs show ?thesis
    by simp
qed

section \<open>The batch pipeline: a pair that cannot be scored\<close>

text \<open>
  C1, as the claim states it: when one pair cannot be embedded, the other pairs still
  get results and the call does not raise. On the concrete backend the third of five
  pairs cannot be embedded, and the call returns the exception and no result.
\<close>

theorem batch_aborts_on_failing_pair:
  "fst (calculate_batch_similarity toy_backend
          [(py_str ''a'', py_str ''a''), (py_str ''b'', py_str ''cc''), ([0], py_str ''c''),
           (py_str ''d'', py_str ''d''), (py_str ''e'', py_str ''f'')]
          (py_str ''all-MiniLM-L6-v2'') []) = Inl (Raised ''RuntimeError'')"
  by (simp add: toy_simps)

text \<open>
  C1, amended. The loop has no handler, so the batch is all or nothing. Once the model
  is loaded, \<open>calculate_batch_similarity\<close> returns a result list exactly when every pair
  whose texts are both non-empty after stripping can be embedded and scored; when some
  such pair raises, the call raises the exception of the first such pair and returns
  no result for any pair. A result has no field for an error marker.
\<close>

theorem batch_all_or_nothing:
  assumes "SentenceTransformer env model_name = Inr model"
  shows "((\<exists>rs. fst (calculate_batch_similarity env text_pairs model_name w) = Inr rs) \<longleftrightarrow>
            (\<forall>p \<in> set text_pairs. nonblank p \<longrightarrow> (\<exists>s. raw_score env model (fst p) (snd p) = Inr s))) \<and>
         (k < length text_pairs \<and> nonblank (text_pairs ! k) \<and>
          raw_score env model (fst (text_pairs ! k)) (snd (text_pairs ! k)) = Inl e \<and>
          (\<forall>j < k. nonblank (text_pairs ! j) \<longrightarrow>
             (\<exists>s. raw_score env model (fst (text_pairs ! j)) (snd (text_pairs ! j)) = Inr s)) \<longrightarrow>
          fst (calculate_batch_similarity env text_pairs model_name w) = Inl e)"
  using assms batch_loop_returns_iff [of env model 0 text_pairs "[]" "w @ [CallLoadModel model_name]"]
    batch_loop_first_failure [of k text_pairs env model e 0 "[]" "w @ [CallLoadModel model_name]"]
  by (simp add: batch_result)

text \<open>
  The five pairs above, where the third is the first that fails, and the first two
  alone, which are both scored.
\<close>

theorem batch_all_or_nothing_witness:
  "SentenceTransformer toy_backend (py_str ''all-MiniLM-L6-v2'') = Inr 0 \<and>
   raw_score toy_backend 0 (py_str ''a'') (py_str ''a'') = Inr (Finite 1) \<and>
   raw_score toy_backend 0 (py_str ''b'') (py_str ''cc'') = Inr (Finite 0.5) \<and>
   raw_score toy_backend 0 [0] (py_str ''c'') = Inl (Raised ''RuntimeError'') \<and>
   fst (calculate_batch_similarity toy_backend
          [(py_str ''a'', py_str ''a''), (py_str ''b'', py_str ''cc''), ([0], py_str ''c''),
           (py_str ''d'', py_str ''d''), (py_str ''e'', py_str ''f'')]
          (py_str ''all-MiniLM-L6-v2'') [CallTime]) = Inl (Raised ''RuntimeError'') \<and>
   (\<exists>rs. fst (calculate_batch_similarity toy_backend
          [(py_str ''a'', py_str ''a''), (py_str ''b'', py_str ''cc'')]
          (py_str ''all-MiniLM-L6-v2'') [CallTime]) = Inr rs)"
proof -
  let ?pairs = "[(py_str ''a'', py_str ''a''), (py_str ''b'', py_str ''cc''), ([0], py_str ''c''),
           (py_str ''d'', py_str ''d''), (py_str ''e'', py_str ''f'')]"
  let ?good = "[(py_str ''a'', py_str ''a''), (py_str ''b'', py_str ''cc'')]"
  have load: "SentenceTransformer toy_backend (py_str ''all-MiniLM-L6-v2'') = Inr 0"
    by (simp add: toy_simps)
  have s0: "raw_score toy_backend 0 (py_str ''a'') (py_str ''a'') = Inr (Finite 1)"
    by (simp add: raw_score_def toy_simps)
  have s1: "raw_score toy_backend 0 (py_str ''b'') (py_str ''cc'') = Inr (Finite 0.5)"
    by (simp add: raw_score_def toy_simps)
  have s2: "raw_score toy_backend 0 [0] (py_str ''c'') = Inl (Raised ''RuntimeError'')"
    by (simp add: raw_score_def toy_simps)
  have nb: "nonblank (?pairs ! 2)"
    by (simp add: nonblank_def toy_simps)
  have before: "\<forall>j < 2. nonblank (?pairs ! j) \<longrightarrow>
      (\<exists>s. raw_score toy_backend 0 (fst (?pairs ! j)) (snd (?pairs ! j)) = Inr s)"
    using s0 s1 by (simp add: less_Suc_eq numeral_2_eq_2)
  have good: "\<forall>p \<in> set ?good. nonblank p \<longrightarrow> (\<exists>s. raw_score toy_backend 0 (fst p) (snd p) = Inr s)"
    using s0 s1 by simp
  from batch_all_or_nothing [OF load, of ?pairs "[CallTime]" 2 "Raised ''RuntimeError''"] nb s2 before
  have "fst (calculate_batch_similarity toy_backend ?pairs (py_str ''all-MiniLM-L6-v2'') [CallTime]) =
      Inl (Raised ''RuntimeError'')"
    by simp
  moreover from batch_all_or_nothing [OF load, of ?good "[CallTime]"] good
  have "\<exists>rs. fst (calculate_batch_similarity toy_backend ?good (py_str ''all-MiniLM-L6-v2'') [CallTime]) = Inr rs"
    by blast
  ultimately show ?thesis
    using load s0 s1 s2 by blast
qed

section \<open>Loading a model\<close>

lemma preprocess_both_valid:
  assumes "\<forall>d. preprocess_options = Some d \<longrightarrow>
     (\<forall>k \<in> set (map fst d). k = py_str ''lowercase'' \<or> k = py_str ''remove_punctuation'')"
  shows "\<exists>a b. \<forall>w. preprocess_both env t1 t2 preprocess_options w = (Inr (a, b), w)"
proof (cases "truthy preprocess_options")
  case True
  then obtain d where d: "preprocess_options = Some d"
    by (auto simp: truthy_def split: option.splits)
  with assms have "\<forall>k \<in> set (map fst d). k = py_str ''lowercase'' \<or> k = py_str ''remove_punctuation''"
    by blast
  then obtain a b where "preprocess_text_kwargs env t1 d = Inr a" "preprocess_text_kwargs env t2 d = Inr b"
    unfolding preprocess_text_kwargs_def by simp
  with True d show ?thesis
    by (simp add: preprocess_both_def run_simps)
next
  case False
  then show ?thesis
    by (simp add: preprocess_both_def ret_def)
qed

lemma run_preprocess_both:
  "preprocess_both env t1 t2 preprocess_options w = (Inr (a, b), w) \<Longrightarrow>
   and_then (preprocess_both env t1 t2 preprocess_options) f w = f (a, b) w"
  by (simp add: and_then_def)

text \<open>
  C6, as the claim states it: every identifier outside the five configured ones fails
  to load. \<open>load_model\<close> does not consult the configured identifiers; it hands every
  name to the constructor, and a backend that knows a sixth model loads it and the
  single-pair pipeline returns a score with it.
\<close>

theorem unknown_model_can_load:
  "py_str ''all-MiniLM-L12-v2'' \<notin> set MODEL_DESCRIPTIONS \<and>
   load_model toy_backend (py_str ''all-MiniLM-L12-v2'') [] =
     (Inr 0, [CallLoadModel (py_str ''all-MiniLM-L12-v2'')]) \<and>
   fst (calculate_similarity toy_backend (py_str ''a'') (py_str ''a'') (py_str ''all-MiniLM-L12-v2'') None []) =
     Inr (Finite 1, Finite 1, py_str ''Very Similar'',
          [(py_str ''text1_tokens'', PyInt 1), (py_str ''text2_tokens'', PyInt 1),
           (py_str ''total_tokens'', PyInt 2), (py_str ''max_seq_length'', PyInt 256)])"
  by (simp add: toy_simps load_model_def external_def preprocess_both_def truthy_def)

text \<open>
  C6, amended. \<open>load_model\<close> passes every identifier to the backend's constructor. If
  the constructor raises for the identifier, \<open>calculate_batch_similarity\<close> raises that
  exception for every list of pairs, the empty one too, and its only external call is
  the attempt to load; \<open>calculate_similarity\<close>, for two texts that are non-empty after
  stripping and options whose keys are parameters of \<open>preprocess_text\<close>, raises that
  exception after reading the clock and attempting to load. In both no text is
  tokenised or embedded.
\<close>

theorem load_failure_aborts:
  assumes "SentenceTransformer env model_name = Inl e"
  shows "calculate_batch_similarity env text_pairs model_name w = (Inl e, w @ [CallLoadModel model_name]) \<and>
         (strip t1 \<noteq> [] \<and> strip t2 \<noteq> [] \<and>
          (\<forall>d. preprocess_options = Some d \<longrightarrow>
             (\<forall>k \<in> set (map fst d). k = py_str ''lowercase'' \<or> k = py_str ''remove_punctuation'')) \<longrightarrow>
          calculate_similarity env t1 t2 model_name preprocess_options w =
            (Inl e, w @ [CallTime, CallLoadModel model_name]))"
proof (intro conjI impI)
  show "calculate_batch_similarity env text_pairs model_name w = (Inl e, w @ [CallLoadModel model_name])"
    using assms by (simp add: calculate_batch_similarity_def run_load_model)
next
  assume a: "strip t1 \<noteq> [] \<and> strip t2 \<noteq> [] \<and>
          (\<forall>d. preprocess_options = Some d \<longrightarrow>
             (\<forall>k \<in> set (map fst d). k = py_str ''lowercase'' \<or> k = py_str ''remove_punctuation''))"
  then obtain a b where "preprocess_both env t1 t2 preprocess_options (w @ [CallTime]) =
      (Inr (a, b), w @ [CallTime])"
    using preprocess_both_valid [of preprocess_options env t1 t2] by blast
  with a assms show "calculate_similarity env t1 t2 model_name preprocess_options w =
            (Inl e, w @ [CallTime, CallLoadModel model_name])"
    by (simp add: calculate_similarity_def run_simps run_preprocess_both)
qed


text \<open>A name the concrete backend does not know, in a batch and in a single comparison.\<close>

theorem load_failure_aborts_witness:
  "SentenceTransformer toy_backend (py_str ''no-such-model'') = Inl (Raised ''OSError'') \<and>
   calculate_batch_similarity toy_backend [(py_str ''a'', py_str ''a'')] (py_str ''no-such-model'') [] =
     (Inl (Raised ''OSError''), [CallLoadModel (py_str ''no-such-model'')]) \<and>
   calculate_similarity toy_backend (py_str ''a'') (py_str ''b'') (py_str ''no-such-model'')
       (Some [(py_str ''lowercase'', True)]) [] =
     (Inl (Raised ''OSError''), [CallTime, CallLoadModel (py_str ''no-such-model'')])"
proof -
  have load: "SentenceTransformer toy_backend (py_str ''no-such-model'') = Inl (Raised ''OSError'')"
    by (simp add: toy_simps)
  have ok: "strip (py_str ''a'') \<noteq> [] \<and> strip (py_str ''b'') \<noteq> [] \<and>
      (\<forall>d. Some [(py_str ''lowercase'', True)] = Some d \<longrightarrow>
         (\<forall>k \<in> set (map fst d). k = py_str ''lowercase'' \<or> k = py_str ''remove_punctuation''))"
    by (auto simp: strip_def isspace_def py_str_def)
  from load_failure_aborts [OF load, of "[(py_str ''a'', py_str ''a'')]" "[]" "py_str ''a''" "py_str ''b''"
      "Some [(py_str ''lowercase'', True)]"] ok load
  show ?thesis
    by simp
qed

section \<open>Batch scores and single-pair scores\<close>





text \<open>
  A dictionary that sets both options to \<open>False\<close> is not empty, so the single-pair
  pipeline calls \<open>preprocess_text\<close> and embeds the stripped texts: for the padded pair
  above it scores \<open>"a"\<close> against \<open>"a"\<close>, where the batch scores \<open>"a"\<close> against \<open>" a "\<close>.
\<close>

lemma single_with_false_options_strips:
  "fst (calculate_similarity toy_backend (py_str ''a'') (py_str '' a '') (py_str ''all-MiniLM-L6-v2'')
   (Some [(py_str ''lowercase'', False), (py_str ''remove_punctuation'', False)]) []) =
     Inr (Finite 1, Finite 1, py_str ''Very Similar'',
          [(py_str ''text1_tokens'', PyInt 1), (py_str ''text2_tokens'', PyInt 1),
           (py_str ''total_tokens'', PyInt 2), (py_str ''max_seq_length'', PyInt 256)])"
  by (simp add: toy_simps preprocess_both_def truthy_def preprocess_text_kwargs_def preprocess_text_def and_then_def lift_def external_def load_model_def time_time_def)

end
